theory Spec2Isabelle
  imports Main "HOL-Library.Word"
begin

section \<open>The unbound plugin of CoreDNS: data model\<close>

text \<open>
  The plugin (\<^verbatim>\<open>unbound.go\<close>, \<^verbatim>\<open>setup.go\<close>) sits between the CoreDNS handler chain
  and two libunbound contexts, one per transport. Everything the plugin
  calls but does not define (libunbound, miekg/dns, the CoreDNS request, metrics and
  plugin packages, the Go standard library) is a collaborator: its behaviour is a field of
  the record \<open>Collab\<close>, and every theorem below holds for every behaviour of
  the collaborators.

  A Go \<^verbatim>\<open>error\<close> is the message \<^verbatim>\<open>Error()\<close> returns; a nil error is \<open>None\<close>.
  A Go pointer that may be nil is an \<open>option\<close>; reading a field through a nil
  pointer panics, which is the value \<open>Panic\<close>.
\<close>

type_synonym error = string

datatype 'a go = Panic | Return 'a

subsection \<open>DNS messages (miekg/dns)\<close>

text \<open>
  A resource record is a Go interface value; the plugin only asks whether its dynamic
  type is \<^verbatim>\<open>*dns.OPT\<close>. Every other record keeps its type code and data.
\<close>

datatype RR = OPT string | OtherRR "16 word" string

fun is_OPT :: "RR \<Rightarrow> bool" where
  "is_OPT (OPT _) = True"
| "is_OPT (OtherRR _ _) = False"

record QuestionRR =
  Name :: string
  Qtype :: "16 word"
  Qclass :: "16 word"

text \<open>
  \<^verbatim>\<open>dns.Msg\<close> with its embedded header. \<^verbatim>\<open>Id\<close> is \<open>MsgId\<close> here. The question
  section is a slice that the plugin compares with nil: \<open>None\<close> is the nil slice.
\<close>

record Msg =
  MsgId :: "16 word"
  Response :: bool
  Opcode :: int
  Authoritative :: bool
  Truncated :: bool
  RecursionDesired :: bool
  RecursionAvailable :: bool
  Zero :: bool
  AuthenticatedData :: bool
  CheckingDisabled :: bool
  Rcode :: int
  Compress :: bool
  Question :: "QuestionRR list option"
  Answer :: "RR list"
  Ns :: "RR list"
  Extra :: "RR list"

definition RcodeServerFailure :: int where
  "RcodeServerFailure = 2"

subsection \<open>The resolution result (libunbound)\<close>

text \<open>
  The fields of \<^verbatim>\<open>unbound.Result\<close> that the plugin reads. \<open>AnswerPacket\<close> is a
  \<^verbatim>\<open>*dns.Msg\<close>; \<open>Rtt\<close> is a \<^verbatim>\<open>time.Duration\<close>, an integer count of nanoseconds.
\<close>

record Result =
  AnswerPacket :: "Msg option"
  Rtt :: int
  Bogus :: bool
  WhyBogus :: string

subsection \<open>The request and the plugin\<close>

text \<open>
  What \<^verbatim>\<open>ServeDNS\<close> reads of its arguments: the values of \<^verbatim>\<open>state.Proto()\<close>,
  \<^verbatim>\<open>state.QName()\<close>, \<^verbatim>\<open>state.QType()\<close>, \<^verbatim>\<open>state.QClass()\<close>, \<^verbatim>\<open>state.Do()\<close>,
  of \<^verbatim>\<open>r.Id\<close> and of \<^verbatim>\<open>metrics.WithServer(ctx)\<close>.
\<close>

record Request =
  Proto :: string
  QName :: string
  QType :: "16 word"
  QClass :: "16 word"
  Do :: bool
  ReqId :: "16 word"
  Server :: string

text \<open>
  The struct \<^verbatim>\<open>Unbound\<close>: the fields \<^verbatim>\<open>u\<close>, \<^verbatim>\<open>t\<close>, \<^verbatim>\<open>from\<close> and \<^verbatim>\<open>except\<close> are
  \<open>u_ctx\<close>, \<open>t_ctx\<close>, \<open>from_zones\<close> and \<open>except_zones\<close>. The type \<open>'c\<close> is the
  state of a libunbound context. The field \<^verbatim>\<open>Next\<close> is used only through
  \<^verbatim>\<open>plugin.NextOrFailure\<close>, a collaborator.
\<close>

record 'c Unbound =
  u_ctx :: 'c
  t_ctx :: 'c
  from_zones :: "string list"
  except_zones :: "string list"
  strict :: bool

subsection \<open>Collaborators\<close>

text \<open>
  \<^item> \<open>NewCtx\<close>, \<open>SetOption\<close>, \<open>Config\<close>, \<open>AddTaFile\<close>, \<open>Resolve\<close>: the methods of a
    libunbound context. A method that changes the context returns the new context.
    \<open>Resolve\<close> returns the Go pair \<^verbatim>\<open>(*Result, error)\<close>, either of which may be nil.
  \<^item> \<open>Quote\<close>: what the verb \<^verbatim>\<open>%q\<close> of \<^verbatim>\<open>fmt.Errorf\<close> prints for a string.
  \<^item> \<open>RcodeToString\<close>: the table \<^verbatim>\<open>dns.RcodeToString\<close>; \<open>Itoa\<close>: \<^verbatim>\<open>strconv.Itoa\<close>.
  \<^item> \<open>NormalizeExact\<close>: \<^verbatim>\<open>plugin.Host(s).NormalizeExact()\<close>.
  \<^item> \<open>NextOrFailure\<close>: the result of \<^verbatim>\<open>plugin.NextOrFailure\<close> on the next handler.
  \<^item> \<open>match\<close>, \<open>dnssec\<close>: the method \<^verbatim>\<open>match\<close> and the predicate \<^verbatim>\<open>dnssec\<close> of this
    package, whose source files are not among the two modelled here.
\<close>

record 'c Collab =
  NewCtx :: 'c
  SetOption :: "'c \<Rightarrow> string \<Rightarrow> string \<Rightarrow> 'c \<times> error option"
  Config :: "'c \<Rightarrow> string \<Rightarrow> 'c \<times> error option"
  AddTaFile :: "'c \<Rightarrow> string \<Rightarrow> 'c \<times> error option"
  Resolve :: "'c \<Rightarrow> string \<Rightarrow> 16 word \<Rightarrow> 16 word \<Rightarrow> Result option \<times> error option"
  Quote :: "string \<Rightarrow> string"
  RcodeToString :: "int \<Rightarrow> string option"
  Itoa :: "int \<Rightarrow> string"
  NormalizeExact :: "string \<Rightarrow> string list"
  NextOrFailure :: "Request \<Rightarrow> int \<times> error option"
  match :: "string list \<Rightarrow> string list \<Rightarrow> Request \<Rightarrow> bool"
  dnssec :: "RR \<Rightarrow> bool"

section \<open>The resolver context pool (unbound.go)\<close>

text \<open>
  \<^verbatim>\<open>setOption\<close> appends the colon, calls \<^verbatim>\<open>SetOption\<close> on the UDP context and drops
  what it returns, calls it on the TCP context and wraps that error.
\<close>

definition setOption :: "'c Collab \<Rightarrow> 'c Unbound \<Rightarrow> string \<Rightarrow> string \<Rightarrow> 'c Unbound \<times> error option" where
  "setOption lib U k0 v =
     (let k = k0 @ '':'';
          cu = fst (SetOption lib (u_ctx U) k v);
          (ct, err) = SetOption lib (t_ctx U) k v;
          U' = U\<lparr>u_ctx := cu, t_ctx := ct\<rparr>
      in case err of
           Some e \<Rightarrow> (U', Some (''failed to set option '' @ Quote lib k @ '' with value ''
                                 @ Quote lib v @ '': '' @ e))
         | None \<Rightarrow> (U', None))"

text \<open>\<^verbatim>\<open>config\<close> returns at the first context that fails, the UDP context first.\<close>

definition config :: "'c Collab \<Rightarrow> 'c Unbound \<Rightarrow> string \<Rightarrow> 'c Unbound \<times> error option" where
  "config lib U f =
     (case Config lib (u_ctx U) f of
        (cu, Some e) \<Rightarrow>
          (U\<lparr>u_ctx := cu\<rparr>,
           Some (''failed to read config file ('' @ f @ '') UDP context: '' @ e))
      | (cu, None) \<Rightarrow>
          (case Config lib (t_ctx U) f of
             (ct, Some e) \<Rightarrow>
               (U\<lparr>u_ctx := cu, t_ctx := ct\<rparr>,
                Some (''failed to read config file ('' @ f @ '') TCP context: '' @ e))
           | (ct, None) \<Rightarrow> (U\<lparr>u_ctx := cu, t_ctx := ct\<rparr>, None)))"

definition setAnchor :: "'c Collab \<Rightarrow> 'c Unbound \<Rightarrow> string \<Rightarrow> 'c Unbound \<times> error option" where
  "setAnchor lib U f =
     (case AddTaFile lib (u_ctx U) f of
        (cu, Some e) \<Rightarrow>
          (U\<lparr>u_ctx := cu\<rparr>,
           Some (''failed to read trust anchor file ('' @ f @ '') UDP context: '' @ e))
      | (cu, None) \<Rightarrow>
          (case AddTaFile lib (t_ctx U) f of
             (ct, Some e) \<Rightarrow>
               (U\<lparr>u_ctx := cu, t_ctx := ct\<rparr>,
                Some (''failed to read trust anchor file ('' @ f @ '') TCP context: '' @ e))
           | (ct, None) \<Rightarrow> (U\<lparr>u_ctx := cu, t_ctx := ct\<rparr>, None)))"

text \<open>
  The package variable \<^verbatim>\<open>options\<close>. It is a Go map, which \<^verbatim>\<open>range\<close> visits in an
  order the language leaves open: \<open>New\<close> takes the visiting order \<open>kvs\<close> as an argument,
  and \<open>options\<close> is one such order.
\<close>

definition options :: "(string \<times> string) list" where
  "options = [(''msg-cache-size'', ''0''), (''rrset-cache-size'', ''0'')]"

text \<open>
  The loop of \<^verbatim>\<open>New\<close>: a failed option is logged as a warning and the loop goes on.
  The second component collects the lines given to \<^verbatim>\<open>log.Warningf\<close>.
\<close>

fun New_loop :: "'c Collab \<Rightarrow> 'c Unbound \<Rightarrow> (string \<times> string) list \<Rightarrow> string list
                 \<Rightarrow> 'c Unbound \<times> string list" where
  "New_loop lib U [] warns = (U, warns)"
| "New_loop lib U ((k, v) # kvs) warns =
     (case setOption lib U k v of
        (U', Some e) \<Rightarrow> New_loop lib U' kvs (warns @ [''Could not set option: '' @ e])
      | (U', None) \<Rightarrow> New_loop lib U' kvs warns)"

definition New :: "'c Collab \<Rightarrow> (string \<times> string) list \<Rightarrow> 'c Unbound \<times> string list" where
  "New lib kvs =
     (let udp = NewCtx lib;
          tcp = fst (SetOption lib (NewCtx lib) ''tcp-upstream:'' ''yes'')
      in New_loop lib
           \<lparr>u_ctx = udp, t_ctx = tcp, from_zones = [], except_zones = [], strict = False\<rparr>
           kvs [])"

section \<open>Serving a query (unbound.go, ServeDNS)\<close>

text \<open>
  The effects of \<^verbatim>\<open>ServeDNS\<close> that outlive the call: the increments of the counter
  vector \<^verbatim>\<open>RcodeCount\<close> (the label pair \<^verbatim>\<open>(server, rc)\<close> of each \<^verbatim>\<open>Add(1)\<close>, in
  order), the observations of the histogram \<^verbatim>\<open>RequestDuration\<close> (server label and the
  duration observed; the source observes \<^verbatim>\<open>Rtt.Seconds()\<close>, the same duration as a
  floating-point number of seconds) and the messages this plugin gave to
  \<^verbatim>\<open>w.WriteMsg\<close>. What the next handler of the chain does to the writer is not recorded.
\<close>

record World =
  RcodeCount :: "(string \<times> string) list"
  RequestDuration :: "(string \<times> int) list"
  written :: "Msg list"

text \<open>
  The \<^verbatim>\<open>switch\<close> on \<^verbatim>\<open>state.Proto()\<close> has no default case: for any other
  transport \<^verbatim>\<open>res\<close> and \<^verbatim>\<open>err\<close> keep their zero values, nil and nil.
\<close>

definition transport_resolve :: "'c Collab \<Rightarrow> 'c Unbound \<Rightarrow> Request \<Rightarrow> Result option \<times> error option" where
  "transport_resolve lib U r =
     (if Proto r = ''tcp'' then Resolve lib (t_ctx U) (QName r) (QType r) (QClass r)
      else if Proto r = ''udp'' then Resolve lib (u_ctx U) (QName r) (QType r) (QClass r)
      else (None, None))"

text \<open>
  The response code for the counter: \<^verbatim>\<open>dns.RcodeServerFailure\<close>, replaced by
  \<^verbatim>\<open>res.AnswerPacket.Rcode\<close> when \<^verbatim>\<open>err == nil\<close>. That read goes through two pointers.
\<close>

definition read_rcode :: "Result option \<Rightarrow> error option \<Rightarrow> int go" where
  "read_rcode res err =
     (case err of
        Some e \<Rightarrow> Return RcodeServerFailure
      | None \<Rightarrow>
          (case res of
             None \<Rightarrow> Panic
           | Some rs \<Rightarrow>
               (case AnswerPacket rs of
                  None \<Rightarrow> Panic
                | Some m \<Rightarrow> Return (Rcode m))))"

text \<open>
  The loop over \<^verbatim>\<open>res.AnswerPacket.Extra\<close>: at the first index \<open>i\<close> that holds an OPT
  record the slice becomes \<^verbatim>\<open>append(Extra[:i], Extra[i+1:]...)\<close> and the loop breaks.
\<close>

function strip_OPT :: "nat \<Rightarrow> RR list \<Rightarrow> RR list" where
  "strip_OPT i extra =
     (if i < length extra
      then (if is_OPT (extra ! i) then take i extra @ drop (i + 1) extra
            else strip_OPT (i + 1) extra)
      else extra)"
  by pat_completeness auto
termination
  by (relation "measure (\<lambda>(i, extra). length extra - i)") auto

text \<open>
  Modelled from the spec: the function \<^verbatim>\<open>filter\<close> of this package is defined in a
  source file that is not among the two modelled here. The specification (4.4) says that
  the record types its predicate selects, "present in the answer are filtered out of all
  sections": the records for which \<open>fn\<close> holds leave the answer, authority and additional
  sections, and nothing else of the message changes.
\<close>

definition filter_msg :: "Msg \<Rightarrow> (RR \<Rightarrow> bool) \<Rightarrow> Msg" where
  "filter_msg m fn =
     m\<lparr>Answer := [rr \<leftarrow> Answer m. \<not> fn rr],
       Ns := [rr \<leftarrow> Ns m. \<not> fn rr],
       Extra := [rr \<leftarrow> Extra m. \<not> fn rr]\<rparr>"

text \<open>
  The block under \<^verbatim>\<open>if !state.Do()\<close>, then the assignment of the identifier.
\<close>

definition sanitize :: "'c Collab \<Rightarrow> Request \<Rightarrow> Msg \<Rightarrow> Msg" where
  "sanitize lib r m =
     (let m1 = (if \<not> Do r
                then filter_msg (m\<lparr>Extra := strip_OPT 0 (Extra m)\<rparr>) (dnssec lib)
                else m)
      in m1\<lparr>MsgId := ReqId r\<rparr>)"

text \<open>
  From the first \<^verbatim>\<open>return\<close> after the metrics to the end of \<^verbatim>\<open>ServeDNS\<close>, for a
  result \<open>rs\<close> that is not nil. Go evaluates \<^verbatim>\<open>||\<close> left to right, so the answer packet
  is read only when \<^verbatim>\<open>err == nil\<close>.
\<close>

definition respond :: "'c Collab \<Rightarrow> 'c Unbound \<Rightarrow> World \<Rightarrow> Request \<Rightarrow> Result \<Rightarrow> error option
                       \<Rightarrow> World \<times> (int \<times> error option) go" where
  "respond lib U wld r rs err =
     (case err of
        Some e \<Rightarrow> (wld, Return (RcodeServerFailure, err))
      | None \<Rightarrow>
          (case AnswerPacket rs of
             None \<Rightarrow> (wld, Panic)
           | Some m \<Rightarrow>
               if Question m = None then (wld, Return (RcodeServerFailure, err))
               else if strict U \<and> Bogus rs
                 then (wld, Return (RcodeServerFailure, Some (WhyBogus rs)))
               else (wld\<lparr>written := written wld @ [sanitize lib r m]\<rparr>, Return (0, None))))"

text \<open>
  The label of the counter: the name of the response code in \<^verbatim>\<open>dns.RcodeToString\<close>,
  or its decimal form when the table has no entry.
\<close>

definition rc_label :: "'c Collab \<Rightarrow> int \<Rightarrow> string" where
  "rc_label lib rcode =
     (case RcodeToString lib rcode of Some s \<Rightarrow> s | None \<Rightarrow> Itoa lib rcode)"

text \<open>
  \<^verbatim>\<open>ServeDNS\<close>. A query that does not match goes to the next handler. Otherwise the
  counter is incremented, then \<^verbatim>\<open>res.Rtt\<close> is read for the histogram, whatever
  \<^verbatim>\<open>err\<close> is: both reads of \<^verbatim>\<open>res\<close> panic when it is nil.
\<close>

definition ServeDNS :: "'c Collab \<Rightarrow> 'c Unbound \<Rightarrow> World \<Rightarrow> Request
                        \<Rightarrow> World \<times> (int \<times> error option) go" where
  "ServeDNS lib U wld r =
     (if \<not> match lib (from_zones U) (except_zones U) r
      then (wld, Return (NextOrFailure lib r))
      else
        (case transport_resolve lib U r of
           (res, err) \<Rightarrow>
             (case read_rcode res err of
                Panic \<Rightarrow> (wld, Panic)
              | Return rcode \<Rightarrow>
                  (let rc = rc_label lib rcode;
                       wld1 = wld\<lparr>RcodeCount := RcodeCount wld @ [(Server r, rc)]\<rparr>
                   in case res of
                        None \<Rightarrow> (wld1, Panic)
                      | Some rs \<Rightarrow>
                          respond lib U
                            (wld1\<lparr>RequestDuration :=
                                    RequestDuration wld1 @ [(Server r, Rtt rs)]\<rparr>)
                            r rs err))))"

section \<open>Reading the configuration (setup.go)\<close>

text \<open>
  The caddy controller hands the plugin the tokens of its directive. The model takes
  them already grouped: for each occurrence of the directive \<^verbatim>\<open>unbound\<close> in the server
  block, the arguments after the name and the lines of its block, each line a first
  token (\<^verbatim>\<open>c.Val()\<close>) and the tokens after it (\<^verbatim>\<open>c.RemainingArgs()\<close>).
\<close>

type_synonym directive = "string \<times> string list"

record Controller =
  ServerBlockKeys :: "string list"
  Occurrences :: "(string list \<times> directive list) list"

text \<open>
  The errors of the parser: \<^verbatim>\<open>plugin.ErrOnce\<close>, \<^verbatim>\<open>c.ArgErr()\<close>, and an error of the
  plugin's own with its message.
\<close>

datatype parse_error = ErrOnce | ArgErr | Failed error

definition normalizeHost :: "'c Collab \<Rightarrow> string \<Rightarrow> string \<Rightarrow> error + string" where
  "normalizeHost lib valueName hostStr =
     (let normalized = NormalizeExact lib hostStr
      in if length normalized = 1 \<and> length (normalized ! 0) > 0
         then Inr (normalized ! 0)
         else Inl (''Invalid '' @ [CHR 0x27] @ valueName @ [CHR 0x27]
                   @ '' value should be normalizable as a non-empty domain name: '' @ hostStr))"

text \<open>The two loops that normalise a slice in place and return at the first error.\<close>

fun normalizeHosts :: "'c Collab \<Rightarrow> string \<Rightarrow> string list \<Rightarrow> error + string list" where
  "normalizeHosts lib valueName [] = Inr []"
| "normalizeHosts lib valueName (str # strs) =
     (case normalizeHost lib valueName str of
        Inl e \<Rightarrow> Inl e
      | Inr host \<Rightarrow>
          (case normalizeHosts lib valueName strs of
             Inl e \<Rightarrow> Inl e
           | Inr hosts \<Rightarrow> Inr (host # hosts)))"

text \<open>One turn of the loop \<^verbatim>\<open>for c.NextBlock()\<close>: the \<^verbatim>\<open>switch\<close> on \<^verbatim>\<open>c.Val()\<close>.\<close>

definition parseDirective :: "'c Collab \<Rightarrow> 'c Unbound \<Rightarrow> directive \<Rightarrow> parse_error + 'c Unbound" where
  "parseDirective lib U d =
     (case d of (val, args) \<Rightarrow>
        if val = ''except'' then
          (if length args = 0 then Inl ArgErr
           else case normalizeHosts lib ''except'' args of
                  Inl e \<Rightarrow> Inl (Failed e)
                | Inr except \<Rightarrow> Inr (U\<lparr>except_zones := except\<rparr>))
        else if val = ''option'' then
          (if length args \<noteq> 2 then Inl ArgErr
           else case setOption lib U (args ! 0) (args ! 1) of
                  (U', Some e) \<Rightarrow> Inl (Failed e)
                | (U', None) \<Rightarrow> Inr U')
        else if val = ''config'' then
          (if length args \<noteq> 1 then Inl ArgErr
           else case config lib U (args ! 0) of
                  (U', Some e) \<Rightarrow> Inl (Failed e)
                | (U', None) \<Rightarrow> Inr U')
        else if val = ''anchor'' then
          (if length args \<noteq> 1 then Inl ArgErr
           else case setAnchor lib U (args ! 0) of
                  (U', Some e) \<Rightarrow> Inl (Failed e)
                | (U', None) \<Rightarrow> Inr (U'\<lparr>strict := True\<rparr>))
        else Inl ArgErr)"

fun parseBlock :: "'c Collab \<Rightarrow> 'c Unbound \<Rightarrow> directive list \<Rightarrow> parse_error + 'c Unbound" where
  "parseBlock lib U [] = Inr U"
| "parseBlock lib U (d # ds) =
     (case parseDirective lib U d of
        Inl e \<Rightarrow> Inl e
      | Inr U' \<Rightarrow> parseBlock lib U' ds)"

text \<open>
  The loop \<^verbatim>\<open>for c.Next()\<close> with its counter \<open>i\<close>: a second occurrence of the
  directive is \<^verbatim>\<open>plugin.ErrOnce\<close>.
\<close>

fun parseOccurrences :: "'c Collab \<Rightarrow> string list \<Rightarrow> 'c Unbound \<Rightarrow> nat
                         \<Rightarrow> (string list \<times> directive list) list \<Rightarrow> parse_error + 'c Unbound" where
  "parseOccurrences lib keys U i [] = Inr U"
| "parseOccurrences lib keys U i ((args, body) # rest) =
     (if i > 0 then Inl ErrOnce
      else
        (let from = (if length args = 0 then keys else args)
         in case normalizeHosts lib ''from'' from of
              Inl e \<Rightarrow> Inl (Failed e)
            | Inr hosts \<Rightarrow>
                (case parseBlock lib (U\<lparr>from_zones := hosts\<rparr>) body of
                   Inl e \<Rightarrow> Inl e
                 | Inr U' \<Rightarrow> parseOccurrences lib keys U' (i + 1) rest)))"

text \<open>
  \<^verbatim>\<open>unboundParse\<close>: the first component is what \<^verbatim>\<open>New\<close> logged, the second the Go
  pair \<^verbatim>\<open>(*Unbound, error)\<close>, of which exactly one is nil.
\<close>

definition unboundParse :: "'c Collab \<Rightarrow> (string \<times> string) list \<Rightarrow> Controller
                            \<Rightarrow> string list \<times> (parse_error + 'c Unbound)" where
  "unboundParse lib kvs c =
     (case New lib kvs of
        (U, warns) \<Rightarrow> (warns, parseOccurrences lib (ServerBlockKeys c) U 0 (Occurrences c)))"

section \<open>A sample environment\<close>

text \<open>
  Concrete collaborators on which the theorems below are instantiated. A context is the
  list of the calls made on it; \<open>rejects\<close> says which call the library refuses in which
  context, and \<open>outcome\<close> is what \<open>Resolve\<close> returns.
\<close>

datatype call = SetOptionCall string string | ConfigCall string | AddTaFileCall string

fun decimal :: "nat \<Rightarrow> string" where
  "decimal n =
     (if n < 10 then [char_of (48 + n)]
      else decimal (n div 10) @ [char_of (48 + n mod 10)])"

definition sample_lib :: "(call list \<Rightarrow> call \<Rightarrow> bool) \<Rightarrow> Result option \<times> error option
                          \<Rightarrow> call list Collab" where
  "sample_lib rejects outcome =
     \<lparr>NewCtx = [],
      SetOption = (\<lambda>c k v. (c @ [SetOptionCall k v],
                     if rejects c (SetOptionCall k v) then Some ''syntax error'' else None)),
      Config = (\<lambda>c f. (c @ [ConfigCall f],
                     if rejects c (ConfigCall f) then Some ''file read failed'' else None)),
      AddTaFile = (\<lambda>c f. (c @ [AddTaFileCall f],
                     if rejects c (AddTaFileCall f) then Some ''file read failed'' else None)),
      Resolve = (\<lambda>c name qtype qclass. outcome),
      Quote = (\<lambda>s. [CHR 0x22] @ s @ [CHR 0x22]),
      RcodeToString = map_of [(0, ''NOERROR''), (2, ''SERVFAIL''), (3, ''NXDOMAIN'')],
      Itoa = (\<lambda>i. if i < 0 then ''-'' @ decimal (nat (- i)) else decimal (nat i)),
      NormalizeExact = (\<lambda>s. if s = [] then [] else [s]),
      NextOrFailure = (\<lambda>r. (2, Some ''plugin/unbound: no next plugin found'')),
      match = (\<lambda>from except r. QName r \<in> set from \<and> QName r \<notin> set except),
      dnssec = (\<lambda>rr. case rr of OPT _ \<Rightarrow> False | OtherRR t _ \<Rightarrow> t = 46 \<or> t = 47)\<rparr>"

definition accept_all :: "call list \<Rightarrow> call \<Rightarrow> bool" where
  "accept_all c x = False"

text \<open>The library refuses every call on a context that has seen no call yet.\<close>

definition reject_fresh :: "call list \<Rightarrow> call \<Rightarrow> bool" where
  "reject_fresh c x = (c = [])"

text \<open>The library refuses every call on a context that has seen a call.\<close>

definition reject_used :: "call list \<Rightarrow> call \<Rightarrow> bool" where
  "reject_used c x = (c \<noteq> [])"

definition sample_pool :: "bool \<Rightarrow> call list Unbound" where
  "sample_pool s =
     \<lparr>u_ctx = [], t_ctx = [SetOptionCall ''tcp-upstream:'' ''yes''],
      from_zones = [''www.example.org.''], except_zones = [], strict = s\<rparr>"

definition sample_query :: "string \<Rightarrow> bool \<Rightarrow> Request" where
  "sample_query proto do =
     \<lparr>Proto = proto, QName = ''www.example.org.'', QType = 1, QClass = 1, Do = do,
      ReqId = 7, Server = ''dns://:53''\<rparr>"

definition sample_msg :: "int \<Rightarrow> QuestionRR list option \<Rightarrow> Msg" where
  "sample_msg rcode q =
     \<lparr>MsgId = 4660, Response = True, Opcode = 0, Authoritative = False, Truncated = False,
      RecursionDesired = True, RecursionAvailable = True, Zero = False,
      AuthenticatedData = False, CheckingDisabled = False, Rcode = rcode, Compress = False,
      Question = q,
      Answer = [OtherRR 1 ''192.0.2.1'', OtherRR 46 ''signature''],
      Ns = [],
      Extra = [OtherRR 1 ''192.0.2.53'', OPT ''first'', OtherRR 46 ''signature'', OPT ''second'']\<rparr>"

definition sample_question :: "QuestionRR list option" where
  "sample_question = Some [\<lparr>Name = ''www.example.org.'', Qtype = 1, Qclass = 1\<rparr>]"

definition sample_result :: "Msg option \<Rightarrow> bool \<Rightarrow> Result" where
  "sample_result m b =
     \<lparr>AnswerPacket = m, Rtt = 1500000, Bogus = b, WhyBogus = ''signature expired''\<rparr>"

definition no_effects :: World where
  "no_effects = \<lparr>RcodeCount = [], RequestDuration = [], written = []\<rparr>"



text \<open>
  The two recursive equations below have a bare left-hand side; they are unfolded by
  hand, one step at a time.
\<close>

declare strip_OPT.simps [simp del]
declare decimal.simps [simp del]

section \<open>Facts about the sample environment\<close>

text \<open>The collaborators of the sample environment, field by field.\<close>

lemma sample_simps:
  "SetOption (sample_lib rj oc) c k v =
     (c @ [SetOptionCall k v], if rj c (SetOptionCall k v) then Some ''syntax error'' else None)"
  "Config (sample_lib rj oc) c f =
     (c @ [ConfigCall f], if rj c (ConfigCall f) then Some ''file read failed'' else None)"
  "AddTaFile (sample_lib rj oc) c f =
     (c @ [AddTaFileCall f], if rj c (AddTaFileCall f) then Some ''file read failed'' else None)"
  "Resolve (sample_lib rj oc) c n qt qc = oc"
  "Quote (sample_lib rj oc) s = [CHR 0x22] @ s @ [CHR 0x22]"
  "NewCtx (sample_lib rj oc) = []"
  "NextOrFailure (sample_lib rj oc) r = (2, Some ''plugin/unbound: no next plugin found'')"
  "match (sample_lib rj oc) fr ex r = (QName r \<in> set fr \<and> QName r \<notin> set ex)"
  "dnssec (sample_lib rj oc) rr = (case rr of OPT _ \<Rightarrow> False | OtherRR t _ \<Rightarrow> t = 46 \<or> t = 47)"
  "NormalizeExact (sample_lib rj oc) s = (if s = [] then [] else [s])"
  "RcodeToString (sample_lib rj oc) = map_of [(0, ''NOERROR''), (2, ''SERVFAIL''), (3, ''NXDOMAIN'')]"
  by (simp_all add: sample_lib_def)

lemmas sample_defs =
  sample_pool_def sample_query_def sample_msg_def sample_question_def sample_result_def
  no_effects_def accept_all_def

lemmas serve_defs =
  ServeDNS_def transport_resolve_def read_rcode_def rc_label_def respond_def sanitize_def
  filter_msg_def RcodeServerFailure_def


text \<open>
  \<open>New\<close> in a sample environment whose TCP context refuses both options: two warnings,
  and the plugin is returned.
\<close>

lemma sample_New_refused:
  "New (sample_lib reject_used (None, None)) options
   = (\<lparr>u_ctx = [SetOptionCall ''msg-cache-size:'' ''0'',
                 SetOptionCall ''rrset-cache-size:'' ''0''],
       t_ctx = [SetOptionCall ''tcp-upstream:'' ''yes'',
                 SetOptionCall ''msg-cache-size:'' ''0'',
                 SetOptionCall ''rrset-cache-size:'' ''0''],
       from_zones = [], except_zones = [], strict = False\<rparr>,
      [''Could not set option: failed to set option '' @ [CHR 0x22] @ ''msg-cache-size:''
         @ [CHR 0x22] @ '' with value '' @ [CHR 0x22] @ ''0'' @ [CHR 0x22] @ '': syntax error'',
       ''Could not set option: failed to set option '' @ [CHR 0x22] @ ''rrset-cache-size:''
         @ [CHR 0x22] @ '' with value '' @ [CHR 0x22] @ ''0'' @ [CHR 0x22] @ '': syntax error''])"
  by (simp add: New_def options_def setOption_def Let_def sample_simps reject_used_def)

section \<open>Properties of the resolver context pool\<close>

text \<open>
  The loop of \<open>New\<close> applies every option to both contexts, whatever the library
  answered for the options before it, and leaves the flag \<open>strict\<close> alone.
\<close>

lemma New_loop_contexts:
  "u_ctx (fst (New_loop lib U kvs warns)) =
     foldl (\<lambda>c kv. fst (SetOption lib c (fst kv @ '':'') (snd kv))) (u_ctx U) kvs
   \<and> t_ctx (fst (New_loop lib U kvs warns)) =
     foldl (\<lambda>c kv. fst (SetOption lib c (fst kv @ '':'') (snd kv))) (t_ctx U) kvs
   \<and> strict (fst (New_loop lib U kvs warns)) = strict U"
proof (induction kvs arbitrary: U warns)
  case Nil
  show ?case by simp
next
  case (Cons kv kvs)
  obtain k v where kv: "kv = (k, v)" by (cases kv)
  obtain U' e where so: "setOption lib U k v = (U', e)" by (cases "setOption lib U k v")
  have ctx: "u_ctx U' = fst (SetOption lib (u_ctx U) (k @ '':'') v)"
            "t_ctx U' = fst (SetOption lib (t_ctx U) (k @ '':'') v)"
            "strict U' = strict U"
    using so by (auto simp: setOption_def Let_def split: prod.splits option.splits)
  show ?case
    using Cons.IH [of U'] ctx by (cases e) (simp_all add: kv so)
qed

text \<open>
  What each of the three operations does to the two contexts, and the error it returns
  when the TCP context refuses.
\<close>

lemma setOption_both:
  "u_ctx (fst (setOption lib U k v)) = fst (SetOption lib (u_ctx U) (k @ '':'') v)
   \<and> t_ctx (fst (setOption lib U k v)) = fst (SetOption lib (t_ctx U) (k @ '':'') v)
   \<and> (\<forall>e. snd (SetOption lib (t_ctx U) (k @ '':'') v) = Some e \<longrightarrow>
          snd (setOption lib U k v) =
            Some (''failed to set option '' @ Quote lib (k @ '':'') @ '' with value ''
                  @ Quote lib v @ '': '' @ e))"
  by (auto simp: setOption_def Let_def split: prod.splits option.splits)

lemma config_udp_then_tcp:
  "u_ctx (fst (config lib U f)) = fst (Config lib (u_ctx U) f)
   \<and> (snd (Config lib (u_ctx U) f) = None \<longrightarrow>
        t_ctx (fst (config lib U f)) = fst (Config lib (t_ctx U) f)
        \<and> (\<forall>e. snd (Config lib (t_ctx U) f) = Some e \<longrightarrow>
              snd (config lib U f) =
                Some (''failed to read config file ('' @ f @ '') TCP context: '' @ e)))
   \<and> (snd (Config lib (u_ctx U) f) \<noteq> None \<longrightarrow>
        t_ctx (fst (config lib U f)) = t_ctx U \<and> snd (config lib U f) \<noteq> None)"
  by (auto simp: config_def split: prod.splits option.splits)

lemma setAnchor_udp_then_tcp:
  "u_ctx (fst (setAnchor lib U f)) = fst (AddTaFile lib (u_ctx U) f)
   \<and> (snd (AddTaFile lib (u_ctx U) f) = None \<longrightarrow>
        t_ctx (fst (setAnchor lib U f)) = fst (AddTaFile lib (t_ctx U) f)
        \<and> (\<forall>e. snd (AddTaFile lib (t_ctx U) f) = Some e \<longrightarrow>
              snd (setAnchor lib U f) =
                Some (''failed to read trust anchor file ('' @ f @ '') TCP context: '' @ e)))
   \<and> (snd (AddTaFile lib (u_ctx U) f) \<noteq> None \<longrightarrow>
        t_ctx (fst (setAnchor lib U f)) = t_ctx U \<and> snd (setAnchor lib U f) \<noteq> None)"
  by (auto simp: setAnchor_def split: prod.splits option.splits)

text \<open>
  Claim C10. For every option key and value, \<open>setOption\<close> returns no error whenever the
  TCP context accepts the option, whatever the UDP context answered: the answer of the
  UDP context is dropped, both contexts hold what the library made of the call, and so
  the two can differ without an error. During construction a refused option is not
  fatal: \<open>New\<close> goes through every option on both contexts and returns its plugin, and
  \<open>unboundParse\<close> on a configuration without the directive returns that plugin.
\<close>

theorem setOption_udp_error_discarded:
  "(snd (SetOption lib (t_ctx U) (k @ '':'') v) = None \<longrightarrow>
      setOption lib U k v =
        (U\<lparr>u_ctx := fst (SetOption lib (u_ctx U) (k @ '':'') v),
           t_ctx := fst (SetOption lib (t_ctx U) (k @ '':'') v)\<rparr>, None))
   \<and> u_ctx (fst (New lib kvs)) =
        foldl (\<lambda>c kv. fst (SetOption lib c (fst kv @ '':'') (snd kv))) (NewCtx lib) kvs
   \<and> t_ctx (fst (New lib kvs)) =
        foldl (\<lambda>c kv. fst (SetOption lib c (fst kv @ '':'') (snd kv)))
          (fst (SetOption lib (NewCtx lib) ''tcp-upstream:'' ''yes'')) kvs
   \<and> snd (unboundParse lib kvs \<lparr>ServerBlockKeys = keys, Occurrences = []\<rparr>)
        = Inr (fst (New lib kvs))"
proof -
  have a: "snd (SetOption lib (t_ctx U) (k @ '':'') v) = None \<longrightarrow>
      setOption lib U k v =
        (U\<lparr>u_ctx := fst (SetOption lib (u_ctx U) (k @ '':'') v),
           t_ctx := fst (SetOption lib (t_ctx U) (k @ '':'') v)\<rparr>, None)"
    by (simp add: setOption_def Let_def split: prod.splits)
  have b: "u_ctx (fst (New lib kvs)) =
        foldl (\<lambda>c kv. fst (SetOption lib c (fst kv @ '':'') (snd kv))) (NewCtx lib) kvs"
    by (simp add: New_def Let_def New_loop_contexts)
  have c: "t_ctx (fst (New lib kvs)) =
        foldl (\<lambda>c kv. fst (SetOption lib c (fst kv @ '':'') (snd kv)))
          (fst (SetOption lib (NewCtx lib) ''tcp-upstream:'' ''yes'')) kvs"
    by (simp add: New_def Let_def New_loop_contexts)
  have d: "snd (unboundParse lib kvs \<lparr>ServerBlockKeys = keys, Occurrences = []\<rparr>)
        = Inr (fst (New lib kvs))"
    by (simp add: unboundParse_def split: prod.splits)
  from a b c d show ?thesis by blast
qed

text \<open>
  In the sample environment the UDP context refuses the option, the TCP context accepts
  it, and \<open>setOption\<close> reports nothing. With a TCP context that refuses the two
  options of \<open>New\<close>, two warnings are logged and \<open>unboundParse\<close> returns the plugin.
\<close>

theorem setOption_udp_error_discarded_witness:
  "snd (SetOption (sample_lib reject_fresh (None, None)) (u_ctx (sample_pool False))
          ''qname-minimisation:'' ''yes'') = Some ''syntax error''
   \<and> snd (SetOption (sample_lib reject_fresh (None, None)) (t_ctx (sample_pool False))
          ''qname-minimisation:'' ''yes'') = None
   \<and> snd (setOption (sample_lib reject_fresh (None, None)) (sample_pool False)
          ''qname-minimisation'' ''yes'') = None
   \<and> u_ctx (fst (setOption (sample_lib reject_fresh (None, None)) (sample_pool False)
          ''qname-minimisation'' ''yes'')) = [SetOptionCall ''qname-minimisation:'' ''yes'']
   \<and> length (snd (New (sample_lib reject_used (None, None)) options)) = 2
   \<and> snd (unboundParse (sample_lib reject_used (None, None)) options
            \<lparr>ServerBlockKeys = [], Occurrences = []\<rparr>)
       = Inr \<lparr>u_ctx = [SetOptionCall ''msg-cache-size:'' ''0'',
                       SetOptionCall ''rrset-cache-size:'' ''0''],
              t_ctx = [SetOptionCall ''tcp-upstream:'' ''yes'',
                       SetOptionCall ''msg-cache-size:'' ''0'',
                       SetOptionCall ''rrset-cache-size:'' ''0''],
              from_zones = [], except_zones = [], strict = False\<rparr>"
  using setOption_udp_error_discarded
    [of "sample_lib reject_fresh (None, None)" "sample_pool False" "''qname-minimisation''"
        "''yes''" "[]" "[]"]
    setOption_udp_error_discarded
    [of "sample_lib reject_used (None, None)" "sample_pool False" "''qname-minimisation''"
        "''yes''" options "[]"]
  by (simp add: sample_New_refused sample_simps sample_pool_def reject_fresh_def reject_used_def)

text \<open>
  Claim C9, as stated, says that each of \<open>setOption\<close>, \<open>config\<close> and \<open>setAnchor\<close> is
  attempted on both contexts. For \<open>config\<close> this fails: when the UDP context refuses
  the file, \<open>config\<close> returns at once and the TCP context never sees the call.
\<close>

theorem config_skips_tcp_counterexample:
  "snd (Config (sample_lib reject_fresh (None, None)) (u_ctx (sample_pool False))
          ''unbound.conf'') = Some ''file read failed''
   \<and> t_ctx (fst (config (sample_lib reject_fresh (None, None)) (sample_pool False)
          ''unbound.conf'')) = t_ctx (sample_pool False)
   \<and> t_ctx (fst (config (sample_lib reject_fresh (None, None)) (sample_pool False)
          ''unbound.conf''))
       \<noteq> fst (Config (sample_lib reject_fresh (None, None)) (t_ctx (sample_pool False))
              ''unbound.conf'')"
  by (simp add: config_def sample_simps sample_pool_def reject_fresh_def)

text \<open>
  Claim C9, amended. \<open>setOption\<close> is attempted on both contexts. \<open>config\<close> and
  \<open>setAnchor\<close> are attempted on the UDP context, and on the TCP context exactly when
  the UDP context accepted; when the UDP context refuses, the TCP context is left as it
  was and an error is returned. In all three, when the TCP context is attempted and
  refuses, the operation returns an error whose message holds the quoted key (with its
  colon) and the quoted value, or the file path, followed by the cause, and the UDP
  context keeps what the library made of the call: nothing is rolled back.
\<close>

theorem pool_operations_tcp_failure:
  "(u_ctx (fst (setOption lib U k v)) = fst (SetOption lib (u_ctx U) (k @ '':'') v)
    \<and> t_ctx (fst (setOption lib U k v)) = fst (SetOption lib (t_ctx U) (k @ '':'') v)
    \<and> (\<forall>e. snd (SetOption lib (t_ctx U) (k @ '':'') v) = Some e \<longrightarrow>
          snd (setOption lib U k v) =
            Some (''failed to set option '' @ Quote lib (k @ '':'') @ '' with value ''
                  @ Quote lib v @ '': '' @ e)))
   \<and> (u_ctx (fst (config lib U f)) = fst (Config lib (u_ctx U) f)
      \<and> (snd (Config lib (u_ctx U) f) = None \<longrightarrow>
           t_ctx (fst (config lib U f)) = fst (Config lib (t_ctx U) f)
           \<and> (\<forall>e. snd (Config lib (t_ctx U) f) = Some e \<longrightarrow>
                 snd (config lib U f) =
                   Some (''failed to read config file ('' @ f @ '') TCP context: '' @ e)))
      \<and> (snd (Config lib (u_ctx U) f) \<noteq> None \<longrightarrow>
           t_ctx (fst (config lib U f)) = t_ctx U \<and> snd (config lib U f) \<noteq> None))
   \<and> (u_ctx (fst (setAnchor lib U g)) = fst (AddTaFile lib (u_ctx U) g)
      \<and> (snd (AddTaFile lib (u_ctx U) g) = None \<longrightarrow>
           t_ctx (fst (setAnchor lib U g)) = fst (AddTaFile lib (t_ctx U) g)
           \<and> (\<forall>e. snd (AddTaFile lib (t_ctx U) g) = Some e \<longrightarrow>
                 snd (setAnchor lib U g) =
                   Some (''failed to read trust anchor file ('' @ g @ '') TCP context: '' @ e)))
      \<and> (snd (AddTaFile lib (u_ctx U) g) \<noteq> None \<longrightarrow>
           t_ctx (fst (setAnchor lib U g)) = t_ctx U \<and> snd (setAnchor lib U g) \<noteq> None))"
  using setOption_both [of lib U k v] config_udp_then_tcp [of lib U f]
        setAnchor_udp_then_tcp [of lib U g]
  by blast

text \<open>
  In the sample environment the UDP context accepts and the TCP context refuses, for
  each of the three operations; and a UDP context that refuses, for the last conjuncts.
\<close>

theorem pool_operations_tcp_failure_witness:
  "snd (Config (sample_lib reject_used (None, None)) (u_ctx (sample_pool False))
          ''unbound.conf'') = None
   \<and> snd (Config (sample_lib reject_used (None, None)) (t_ctx (sample_pool False))
          ''unbound.conf'') = Some ''file read failed''
   \<and> snd (config (sample_lib reject_used (None, None)) (sample_pool False) ''unbound.conf'')
       = Some ''failed to read config file (unbound.conf) TCP context: file read failed''
   \<and> u_ctx (fst (config (sample_lib reject_used (None, None)) (sample_pool False)
          ''unbound.conf'')) = [ConfigCall ''unbound.conf'']
   \<and> snd (setAnchor (sample_lib reject_used (None, None)) (sample_pool False) ''root.key'')
       = Some ''failed to read trust anchor file (root.key) TCP context: file read failed''
   \<and> snd (setOption (sample_lib reject_used (None, None)) (sample_pool False)
          ''do-ip6'' ''no'')
       = Some (''failed to set option '' @ [CHR 0x22] @ ''do-ip6:'' @ [CHR 0x22]
               @ '' with value '' @ [CHR 0x22] @ ''no'' @ [CHR 0x22] @ '': syntax error'')
   \<and> snd (Config (sample_lib reject_fresh (None, None)) (u_ctx (sample_pool False))
          ''unbound.conf'') \<noteq> None
   \<and> snd (AddTaFile (sample_lib reject_fresh (None, None)) (u_ctx (sample_pool False))
          ''root.key'') \<noteq> None"
  using pool_operations_tcp_failure
    [of "sample_lib reject_used (None, None)" "sample_pool False" "''do-ip6''" "''no''"
        "''unbound.conf''" "''root.key''"]
    pool_operations_tcp_failure
    [of "sample_lib reject_fresh (None, None)" "sample_pool False" "''do-ip6''" "''no''"
        "''unbound.conf''" "''root.key''"]
  by (simp add: sample_simps sample_pool_def reject_used_def reject_fresh_def)

section \<open>Properties of ServeDNS\<close>

text \<open>
  When the query matches, the engine returned a result that is not nil, and the response
  code for the counter could be read, \<open>ServeDNS\<close> has incremented the counter once and
  observed one duration before it decides what to return.
\<close>

lemma ServeDNS_resolved:
  assumes "match lib (from_zones U) (except_zones U) r"
    and "transport_resolve lib U r = (Some rs, err)"
    and "read_rcode (Some rs) err = Return rcode"
  shows "ServeDNS lib U wld r =
           respond lib U
             (wld\<lparr>RcodeCount := RcodeCount wld @ [(Server r, rc_label lib rcode)],
                  RequestDuration := RequestDuration wld @ [(Server r, Rtt rs)]\<rparr>)
             r rs err"
  using assms by (simp add: ServeDNS_def rc_label_def Let_def)

lemma read_rcode_error: "read_rcode res (Some e) = Return RcodeServerFailure"
  by (simp add: read_rcode_def)

lemma read_rcode_answer: "AnswerPacket rs = Some m \<Longrightarrow> read_rcode (Some rs) None = Return (Rcode m)"
  by (simp add: read_rcode_def)

lemma respond_failure:
  assumes "err \<noteq> None \<or> (\<exists>m. AnswerPacket rs = Some m \<and> Question m = None)"
  shows "respond lib U wld r rs err = (wld, Return (RcodeServerFailure, err))"
  using assms by (auto simp: respond_def split: option.splits)


lemma respond_sent:
  assumes "AnswerPacket rs = Some m" and "Question m \<noteq> None" and "\<not> (strict U \<and> Bogus rs)"
  shows "respond lib U wld r rs None =
           (wld\<lparr>written := written wld @ [sanitize lib r m]\<rparr>, Return (0, None))"
  using assms by (cases "Question m") (auto simp: respond_def)

lemma sanitize_Rcode: "Rcode (sanitize lib r m) = Rcode m"
  by (simp add: sanitize_def filter_msg_def Let_def)

lemma sanitize_Do: "Do r \<Longrightarrow> sanitize lib r m = m\<lparr>MsgId := ReqId r\<rparr>"
  by (simp add: sanitize_def)

lemma sanitize_Extra:
  "\<not> Do r \<Longrightarrow> Extra (sanitize lib r m) = [rr \<leftarrow> strip_OPT 0 (Extra m). \<not> dnssec lib rr]"
  by (simp add: sanitize_def filter_msg_def)

lemma ServeDNS_sent:
  assumes "match lib (from_zones U) (except_zones U) r"
    and "transport_resolve lib U r = (Some rs, None)"
    and "AnswerPacket rs = Some m"
    and "Question m \<noteq> None"
    and "\<not> (strict U \<and> Bogus rs)"
  shows "ServeDNS lib U wld r =
           (wld\<lparr>RcodeCount := RcodeCount wld @ [(Server r, rc_label lib (Rcode m))],
                RequestDuration := RequestDuration wld @ [(Server r, Rtt rs)],
                written := written wld @ [sanitize lib r m]\<rparr>,
            Return (0, None))"
  by (simp add: ServeDNS_resolved [OF assms(1,2) read_rcode_answer [OF assms(3)]]
        respond_sent [OF assms(3,4,5)])

lemma ServeDNS_written:
  assumes "match lib (from_zones U) (except_zones U) r"
  shows "written (fst (ServeDNS lib U wld r)) = written wld
         \<or> (\<exists>rs m. transport_resolve lib U r = (Some rs, None) \<and> AnswerPacket rs = Some m
                \<and> Question m \<noteq> None \<and> \<not> (strict U \<and> Bogus rs)
                \<and> written (fst (ServeDNS lib U wld r)) = written wld @ [sanitize lib r m])"
  using assms
  by (auto simp: ServeDNS_def respond_def read_rcode_def Let_def
           split: prod.splits option.splits go.splits if_splits)

text \<open>A query that does not match leaves the metrics and the writer alone.\<close>

lemma ServeDNS_pass_through:
  "\<not> match lib (from_zones U) (except_zones U) r \<Longrightarrow>
   ServeDNS lib U wld r = (wld, Return (NextOrFailure lib r))"
  by (simp add: ServeDNS_def)

text \<open>
  With a result that is not nil, and an answer packet that is not nil when there is no
  error, there is exactly one increment and exactly one observation, whatever is
  returned. The label is the one of the response code read before the policy.
\<close>

lemma ServeDNS_metrics_once:
  assumes "match lib (from_zones U) (except_zones U) r"
    and "transport_resolve lib U r = (Some rs, err)"
    and "read_rcode (Some rs) err = Return rcode"
  shows "RcodeCount (fst (ServeDNS lib U wld r))
           = RcodeCount wld @ [(Server r, rc_label lib rcode)]
         \<and> RequestDuration (fst (ServeDNS lib U wld r))
           = RequestDuration wld @ [(Server r, Rtt rs)]"
  by (auto simp: ServeDNS_resolved [OF assms] respond_def split: option.splits)

text \<open>
  The loop that strips the OPT record, from index \<open>i\<close> on: the records before the first
  OPT record at or after \<open>i\<close> stay, that record goes, the records after it stay.
\<close>

lemma strip_OPT_from:
  "i \<le> length xs \<Longrightarrow>
   strip_OPT i xs =
     take i xs @ takeWhile (\<lambda>rr. \<not> is_OPT rr) (drop i xs)
       @ drop 1 (dropWhile (\<lambda>rr. \<not> is_OPT rr) (drop i xs))"
proof (induction i xs rule: strip_OPT.induct)
  case (1 i extra)
  show ?case
  proof (cases "i < length extra")
    case False
    with "1.prems" show ?thesis by (subst strip_OPT.simps) simp
  next
    case True
    then have d: "drop i extra = extra ! i # drop (Suc i) extra"
      by (simp add: Cons_nth_drop_Suc)
    show ?thesis
    proof (cases "is_OPT (extra ! i)")
      case opt: True
      show ?thesis using True opt by (simp add: strip_OPT.simps [of i extra] d)
    next
      case other: False
      have "strip_OPT i extra = strip_OPT (i + 1) extra"
        using True other by (simp add: strip_OPT.simps [of i extra])
      also have "\<dots> = take (i + 1) extra @ takeWhile (\<lambda>rr. \<not> is_OPT rr) (drop (i + 1) extra)
                     @ drop 1 (dropWhile (\<lambda>rr. \<not> is_OPT rr) (drop (i + 1) extra))"
        using "1.IH" [OF True other] True by simp
      also have "\<dots> = take i extra @ takeWhile (\<lambda>rr. \<not> is_OPT rr) (drop i extra)
                     @ drop 1 (dropWhile (\<lambda>rr. \<not> is_OPT rr) (drop i extra))"
        using True other by (simp add: d take_Suc_conv_app_nth)
      finally show ?thesis .
    qed
  qed
qed

lemma strip_OPT_first:
  "strip_OPT 0 xs =
     takeWhile (\<lambda>rr. \<not> is_OPT rr) xs @ drop 1 (dropWhile (\<lambda>rr. \<not> is_OPT rr) xs)"
  using strip_OPT_from [of 0 xs] by simp

lemma filter_without_first:
  "filter P (takeWhile (\<lambda>x. \<not> P x) xs @ drop 1 (dropWhile (\<lambda>x. \<not> P x) xs))
     = drop 1 (filter P xs)"
  by (induction xs) auto

lemma filter_keeps_OPT:
  "\<forall>rr. is_OPT rr \<longrightarrow> \<not> fn rr \<Longrightarrow> filter is_OPT [rr \<leftarrow> xs. \<not> fn rr] = filter is_OPT xs"
  by (induction xs) auto

text \<open>
  Claim C1, as stated, promises an error that is never nil. When the engine reports no
  error and the answer has no question section, \<open>ServeDNS\<close> returns the code for server
  failure with the engine's error, which is nil.
\<close>

theorem missing_question_nil_error_counterexample:
  "match (sample_lib accept_all (Some (sample_result (Some (sample_msg 0 None)) False), None))
     (from_zones (sample_pool False)) (except_zones (sample_pool False)) (sample_query ''udp'' True)
   \<and> snd (ServeDNS
        (sample_lib accept_all (Some (sample_result (Some (sample_msg 0 None)) False), None))
        (sample_pool False) no_effects (sample_query ''udp'' True))
     = Return (RcodeServerFailure, None)"
  by (simp add: serve_defs sample_simps sample_defs)

text \<open>
  Claim C1, amended. For every query in scope for which the engine returned a result
  that is not nil: if the engine returned an error, or an answer whose question section
  is absent, \<open>ServeDNS\<close> returns the code for server failure together with the engine's
  error as it is, nil when the engine reported none, and writes nothing to the requester.
\<close>

theorem ServeDNS_failure_returns_engine_error:
  assumes "match lib (from_zones U) (except_zones U) r"
    and "transport_resolve lib U r = (Some rs, err)"
    and "err \<noteq> None \<or> (\<exists>m. AnswerPacket rs = Some m \<and> Question m = None)"
  shows "snd (ServeDNS lib U wld r) = Return (RcodeServerFailure, err)
         \<and> written (fst (ServeDNS lib U wld r)) = written wld"
proof -
  obtain rcode where rc: "read_rcode (Some rs) err = Return rcode"
    using assms(3) by (cases err) (auto simp: read_rcode_def)
  show ?thesis
    by (simp add: ServeDNS_resolved [OF assms(1,2) rc] respond_failure [OF assms(3)])
qed

text \<open>
  In the sample environment: an engine error with a result, over TCP; and an answer
  without a question section and no error, over UDP.
\<close>

theorem ServeDNS_failure_returns_engine_error_witness:
  "snd (ServeDNS
        (sample_lib accept_all (Some (sample_result None False), Some ''could not resolve''))
        (sample_pool False) no_effects (sample_query ''tcp'' True))
     = Return (RcodeServerFailure, Some ''could not resolve'')
   \<and> snd (ServeDNS
        (sample_lib accept_all (Some (sample_result (Some (sample_msg 3 None)) False), None))
        (sample_pool False) no_effects (sample_query ''udp'' False))
     = Return (RcodeServerFailure, None)"
  using ServeDNS_failure_returns_engine_error
    [of "sample_lib accept_all (Some (sample_result None False), Some ''could not resolve'')"
        "sample_pool False" "sample_query ''tcp'' True" "sample_result None False"
        "Some ''could not resolve''" no_effects]
    ServeDNS_failure_returns_engine_error
    [of "sample_lib accept_all (Some (sample_result (Some (sample_msg 3 None)) False), None)"
        "sample_pool False" "sample_query ''udp'' False"
        "sample_result (Some (sample_msg 3 None)) False" None no_effects]
  by (simp add: transport_resolve_def sample_simps sample_defs)

text \<open>
  Claim C2 says that the counter is incremented with the response code in effect after
  the policy, so with the label of server failure for a bogus outcome in strict mode.
  \<open>ServeDNS\<close> increments the counter before the policy: for a bogus answer whose
  packet says \<^verbatim>\<open>NOERROR\<close>, in strict mode, the label is \<^verbatim>\<open>NOERROR\<close> and the code
  returned is server failure.
\<close>

theorem bogus_strict_counter_label:
  "ServeDNS
     (sample_lib accept_all
        (Some (sample_result (Some (sample_msg 0 sample_question)) True), None))
     (sample_pool True) no_effects (sample_query ''udp'' True)
   = (\<lparr>RcodeCount = [(''dns://:53'', ''NOERROR'')],
       RequestDuration = [(''dns://:53'', 1500000)], written = []\<rparr>,
      Return (RcodeServerFailure, Some ''signature expired''))"
  by (simp add: serve_defs sample_simps sample_defs)

text \<open>
  Claim C4 says that \<open>ServeDNS\<close> never reads through a nil result. When the engine
  returns an error and a nil result, the counter is incremented with the label of server
  failure and the read of \<^verbatim>\<open>res.Rtt\<close> panics; for a transport that is neither
  \<^verbatim>\<open>udp\<close> nor \<^verbatim>\<open>tcp\<close> no call is made, result and error are both nil, and the read of
  \<^verbatim>\<open>res.AnswerPacket\<close> panics.
\<close>

theorem nil_result_panics:
  "ServeDNS (sample_lib accept_all (None, Some ''could not resolve''))
     (sample_pool False) no_effects (sample_query ''udp'' False)
   = (\<lparr>RcodeCount = [(''dns://:53'', ''SERVFAIL'')], RequestDuration = [], written = []\<rparr>,
      Panic)
   \<and> ServeDNS (sample_lib accept_all (None, Some ''could not resolve''))
     (sample_pool False) no_effects (sample_query ''quic'' False)
   = (no_effects, Panic)"
  by (simp add: serve_defs sample_simps sample_defs)

text \<open>
  Claim C5 says that every query that reaches the engine produces one observation of the
  duration and one increment of the counter, whatever the outcome. When the engine
  returns an error and a nil result there is one increment and no observation: the read
  of the duration panics.
\<close>

theorem engine_error_no_duration_observed:
  "length (RcodeCount (fst (ServeDNS (sample_lib accept_all (None, Some ''could not resolve''))
     (sample_pool True) no_effects (sample_query ''tcp'' True)))) = 1
   \<and> length (RequestDuration (fst (ServeDNS (sample_lib accept_all (None, Some ''could not resolve''))
     (sample_pool True) no_effects (sample_query ''tcp'' True)))) = 0
   \<and> snd (ServeDNS (sample_lib accept_all (None, Some ''could not resolve''))
     (sample_pool True) no_effects (sample_query ''tcp'' True)) = Panic"
  by (simp add: serve_defs sample_simps sample_defs)

text \<open>
  Claim C6. For every query in scope for which the engine returned no error and an
  answer with a question section, when the plugin is not strict or the outcome is not
  bogus, \<open>ServeDNS\<close> returns 0 and no error, and the one message it writes carries the
  response code of the engine's answer.
\<close>

theorem embedded_rcode_verbatim:
  assumes "match lib (from_zones U) (except_zones U) r"
    and "transport_resolve lib U r = (Some rs, None)"
    and "AnswerPacket rs = Some m"
    and "Question m \<noteq> None"
    and "\<not> (strict U \<and> Bogus rs)"
  shows "snd (ServeDNS lib U wld r) = Return (0, None)
         \<and> (\<exists>m'. written (fst (ServeDNS lib U wld r)) = written wld @ [m']
                \<and> Rcode m' = Rcode m)"
  by (simp add: ServeDNS_sent [OF assms] sanitize_Rcode)

text \<open>
  In the sample environment the outcome is bogus with \<^verbatim>\<open>NXDOMAIN\<close>, the plugin is not
  strict, and the message written says \<^verbatim>\<open>NXDOMAIN\<close>.
\<close>

theorem embedded_rcode_verbatim_witness:
  "Bogus (sample_result (Some (sample_msg 3 sample_question)) True)
   \<and> \<not> strict (sample_pool False)
   \<and> (\<exists>m'. written (fst (ServeDNS
        (sample_lib accept_all
           (Some (sample_result (Some (sample_msg 3 sample_question)) True), None))
        (sample_pool False) no_effects (sample_query ''udp'' False))) = written no_effects @ [m']
        \<and> Rcode m' = 3)"
  using embedded_rcode_verbatim
    [of "sample_lib accept_all
           (Some (sample_result (Some (sample_msg 3 sample_question)) True), None)"
        "sample_pool False" "sample_query ''udp'' False"
        "sample_result (Some (sample_msg 3 sample_question)) True"
        "sample_msg 3 sample_question" no_effects]
  by (simp add: transport_resolve_def sample_simps sample_defs)

text \<open>
  Claim C7. For every query in scope without the DO bit whose answer is written, the
  additional section that the loop hands on is the engine's without its first OPT record,
  every other record in place; the section written is that one without the records that
  \<open>dnssec\<close> selects. When \<open>dnssec\<close> selects no OPT record, the OPT records written are the
  engine's OPT records without the first: of two or more, one is removed and the rest
  remain.
\<close>

theorem first_OPT_removed:
  assumes "match lib (from_zones U) (except_zones U) r"
    and "\<not> Do r"
    and "transport_resolve lib U r = (Some rs, None)"
    and "AnswerPacket rs = Some m"
    and "Question m \<noteq> None"
    and "\<not> (strict U \<and> Bogus rs)"
  shows "\<exists>m'. written (fst (ServeDNS lib U wld r)) = written wld @ [m']
           \<and> Extra m' =
               [rr \<leftarrow> takeWhile (\<lambda>rr. \<not> is_OPT rr) (Extra m)
                       @ drop 1 (dropWhile (\<lambda>rr. \<not> is_OPT rr) (Extra m)). \<not> dnssec lib rr]
           \<and> ((\<forall>rr. is_OPT rr \<longrightarrow> \<not> dnssec lib rr) \<longrightarrow>
                 filter is_OPT (Extra m') = drop 1 (filter is_OPT (Extra m)))"
proof -
  let ?m' = "sanitize lib r m"
  have w: "written (fst (ServeDNS lib U wld r)) = written wld @ [?m']"
    by (simp add: ServeDNS_sent [OF assms(1,3,4,5,6)])
  have e: "Extra ?m' =
             [rr \<leftarrow> takeWhile (\<lambda>rr. \<not> is_OPT rr) (Extra m)
                     @ drop 1 (dropWhile (\<lambda>rr. \<not> is_OPT rr) (Extra m)). \<not> dnssec lib rr]"
    using assms(2) by (simp add: sanitize_Extra strip_OPT_first)
  have o: "filter is_OPT (Extra ?m') = drop 1 (filter is_OPT (Extra m))"
    if "\<forall>rr. is_OPT rr \<longrightarrow> \<not> dnssec lib rr"
    using filter_keeps_OPT [OF that] filter_without_first [of is_OPT "Extra m"]
    by (simp only: e)
  from w e o show ?thesis by blast
qed

text \<open>
  In the sample environment the additional section holds two OPT records and a signature;
  the second OPT record is written.
\<close>

theorem first_OPT_removed_witness:
  "filter is_OPT (Extra (sample_msg 0 sample_question)) = [OPT ''first'', OPT ''second'']
   \<and> (\<exists>m'. written (fst (ServeDNS
        (sample_lib accept_all
           (Some (sample_result (Some (sample_msg 0 sample_question)) False), None))
        (sample_pool True) no_effects (sample_query ''tcp'' False))) = [m']
        \<and> Extra m' = [OtherRR 1 ''192.0.2.53'', OPT ''second'']
        \<and> filter is_OPT (Extra m') = [OPT ''second''])"
proof -
  have opt: "\<forall>rr. is_OPT rr \<longrightarrow>
      \<not> dnssec (sample_lib accept_all
           (Some (sample_result (Some (sample_msg 0 sample_question)) False), None)) rr"
  proof (intro allI impI)
    fix rr assume "is_OPT rr"
    then show "\<not> dnssec (sample_lib accept_all
           (Some (sample_result (Some (sample_msg 0 sample_question)) False), None)) rr"
      by (cases rr) (simp_all add: sample_simps)
  qed
  show ?thesis
    using opt first_OPT_removed
      [of "sample_lib accept_all
             (Some (sample_result (Some (sample_msg 0 sample_question)) False), None)"
          "sample_pool True" "sample_query ''tcp'' False"
          "sample_result (Some (sample_msg 0 sample_question)) False"
          "sample_msg 0 sample_question" no_effects]
    by (simp add: transport_resolve_def sample_simps sample_defs)
qed

text \<open>
  Claim C8. For every query in scope with the DO bit, the message written to the
  requester is the engine's answer with the identifier replaced by the identifier of the
  query, and nothing else changed: it is written whenever the engine returned no error
  and an answer with a question section that the policy lets through, and nothing else
  is ever written.
\<close>

theorem DO_answer_unmodified:
  assumes "match lib (from_zones U) (except_zones U) r"
    and "Do r"
  shows "(\<forall>rs m. transport_resolve lib U r = (Some rs, None) \<and> AnswerPacket rs = Some m
              \<and> Question m \<noteq> None \<and> \<not> (strict U \<and> Bogus rs)
            \<longrightarrow> written (fst (ServeDNS lib U wld r)) = written wld @ [m\<lparr>MsgId := ReqId r\<rparr>])
         \<and> (written (fst (ServeDNS lib U wld r)) = written wld
            \<or> (\<exists>rs m. transport_resolve lib U r = (Some rs, None) \<and> AnswerPacket rs = Some m
                  \<and> written (fst (ServeDNS lib U wld r))
                      = written wld @ [m\<lparr>MsgId := ReqId r\<rparr>]))"
proof -
  have a: "written (fst (ServeDNS lib U wld r)) = written wld @ [m\<lparr>MsgId := ReqId r\<rparr>]"
    if "transport_resolve lib U r = (Some rs, None)" "AnswerPacket rs = Some m"
       "Question m \<noteq> None" "\<not> (strict U \<and> Bogus rs)" for rs m
    by (simp add: ServeDNS_sent [OF assms(1) that] sanitize_Do [OF assms(2)])
  have b: "written (fst (ServeDNS lib U wld r)) = written wld
            \<or> (\<exists>rs m. transport_resolve lib U r = (Some rs, None) \<and> AnswerPacket rs = Some m
                  \<and> written (fst (ServeDNS lib U wld r))
                      = written wld @ [m\<lparr>MsgId := ReqId r\<rparr>])"
    using ServeDNS_written [OF assms(1), of wld] sanitize_Do [OF assms(2), of lib] by auto
  from a b show ?thesis by blast
qed

theorem DO_answer_unmodified_witness:
  "written (fst (ServeDNS
      (sample_lib accept_all
         (Some (sample_result (Some (sample_msg 0 sample_question)) False), None))
      (sample_pool True) no_effects (sample_query ''udp'' True)))
   = [(sample_msg 0 sample_question)\<lparr>MsgId := 7\<rparr>]"
  using DO_answer_unmodified
    [of "sample_lib accept_all
           (Some (sample_result (Some (sample_msg 0 sample_question)) False), None)"
        "sample_pool True" "sample_query ''udp'' True" no_effects]
  by (simp add: transport_resolve_def sample_simps sample_defs)

section \<open>Strict mode\<close>













end
